theory Spec2Isabelle
  imports Main "HOL-Library.Sublist"
begin

section \<open>Strings, paths and the host platform\<close>

text \<open>
  Python \<open>str\<close> values are modelled as \<open>string\<close>; a \<open>char\<close> stands for a code point
  below 256. The newline written \<^verbatim>\<open>"\n"\<close> in the source is \<open>nl\<close>.
\<close>

definition nl :: string where
  "nl = [CHR 0x0A]"

text \<open>The settings block of \<^verbatim>\<open>venv_manager.py\<close>.\<close>

definition PYTHON_VERSION :: string where
  "PYTHON_VERSION = ''3.11''"

definition PIP_TOOLS_VERSION :: string where
  "PIP_TOOLS_VERSION = ''7.4.1''"

definition REQUIREMENTS_FILE :: string where
  "REQUIREMENTS_FILE = ''requirements.in''"

definition VENV_NAME :: string where
  "VENV_NAME = ''venv_running''"

text \<open>
  The interpreter's \<open>os\<close> module comes in two flavours (\<open>os.name\<close> is \<^verbatim>\<open>posix\<close> or
  \<^verbatim>\<open>nt\<close>); the flavour fixes \<open>os.sep\<close>, \<open>os.pathsep\<close> and \<open>os.path.join\<close>.
\<close>

datatype os_flavour = Posix | Nt

definition os_sep :: "os_flavour \<Rightarrow> string" where
  "os_sep fl = (case fl of Posix \<Rightarrow> ''/'' | Nt \<Rightarrow> [CHR 0x5C])"

definition os_pathsep :: "os_flavour \<Rightarrow> string" where
  "os_pathsep fl = (case fl of Posix \<Rightarrow> '':'' | Nt \<Rightarrow> '';'')"

definition is_sep :: "os_flavour \<Rightarrow> char \<Rightarrow> bool" where
  "is_sep fl c = (case fl of Posix \<Rightarrow> c = CHR ''/'' | Nt \<Rightarrow> c = CHR 0x5C \<or> c = CHR ''/'')"

text \<open>
  \<open>os.path.join\<close> of the standard library, one component at a time: a component that
  starts with a separator replaces what came before, otherwise it is appended, with
  \<open>os.sep\<close> in between unless the path so far is empty or already ends in a separator.
  This is \<open>posixpath.join\<close>, and \<open>ntpath.join\<close> on components without a drive or UNC
  prefix (the program joins string literals only, none of which has one).
\<close>

definition join_step :: "os_flavour \<Rightarrow> string \<Rightarrow> string \<Rightarrow> string" where
  "join_step fl path b =
     (if b \<noteq> [] \<and> is_sep fl (hd b) then b
      else if path = [] \<or> is_sep fl (last path) then path @ b
      else path @ os_sep fl @ b)"

definition os_path_join :: "os_flavour \<Rightarrow> string \<Rightarrow> string list \<Rightarrow> string" where
  "os_path_join fl a ps = foldl (join_step fl) a ps"

text \<open>
  \<open>str.isspace\<close> on code points below 256, and \<open>str.strip()\<close> with no argument, which
  removes leading and trailing whitespace.
\<close>

definition isspace :: "char \<Rightarrow> bool" where
  "isspace c =
     (let n = (of_char c :: nat)
      in (9 \<le> n \<and> n \<le> 13) \<or> (28 \<le> n \<and> n \<le> 31) \<or> n = 32 \<or> n = 133 \<or> n = 160)"

definition strip :: "string \<Rightarrow> string" where
  "strip s = rev (dropWhile isspace (rev (dropWhile isspace s)))"

text \<open>
  What the program reads from its host: \<open>platform.system()\<close>, \<open>platform.release()\<close>,
  \<open>platform.version()\<close>, the flavour of \<open>os\<close>, and \<open>sys.executable\<close>.
\<close>

record host =
  system :: string
  release :: string
  version :: string
  flavour :: os_flavour
  executable :: string

section \<open>Child processes, exceptions and the interface state\<close>

datatype py_exn =
    FileNotFoundError string
  | KeyError string
  | OtherException string

datatype cmdline = Argv "string list" | Shell string

text \<open>
  One call of \<open>subprocess.run\<close>: the argument list (or the shell string when
  \<open>shell=True\<close>), the flags \<open>capture_output\<close> and \<open>text\<close>, and the \<open>env\<close> argument
  (\<open>None\<close>: the child inherits the host's environment).
\<close>

record invocation =
  cmd :: cmdline
  capture_output :: bool
  text_mode :: bool
  env :: "(string \<rightharpoonup> string) option"

text \<open>
  The \<open>CompletedProcess\<close> a call returns. \<open>stdout\<close> and \<open>stderr\<close> are the captured
  texts; the program reads them only after calls made with \<open>capture_output=True\<close>.
\<close>

record completed =
  returncode :: int
  stdout :: string
  stderr :: string

datatype tab = Menu | Terminal

text \<open>
  Dictionaries are objects: a variable holds the address of one, and an assignment to a
  key changes the object for everyone who holds its address. \<open>os.environ\<close> is the
  object at the address \<open>os_environ\<close>.
\<close>

type_synonym ref = nat

type_synonym py_dict = "string \<rightharpoonup> string"

definition os_environ :: ref where
  "os_environ = 0"

text \<open>
  The mutable state of the running program: the text of the \<open>terminal_output\<close> widget
  and the index its view was last scrolled to, the text of \<open>shell_entry\<close>, the selected
  notebook tab, the message boxes shown so far (title and message), the dictionary
  objects by address and the next unused address, the calls of \<open>subprocess.run\<close> made so
  far, and the world outside the process, on which the outcome of a child process
  depends.
\<close>

record 'w gui =
  terminal_output :: string
  view_pos :: nat
  shell_entry :: string
  selected_tab :: tab
  dialogs :: "(string \<times> string) list"
  dicts :: "ref \<Rightarrow> py_dict"
  next_ref :: ref
  run_calls :: "invocation list"
  world :: 'w

text \<open>The items of \<open>os.environ\<close>, the environment of the host process.\<close>

definition environ :: "'w gui \<Rightarrow> py_dict" where
  "environ s = dicts s os_environ"

text \<open>
  The outside world answers a call of \<open>subprocess.run\<close> either with an exception (the
  executable cannot be started, the output cannot be decoded) or with a completed
  process, and moves on to a new world.
\<close>

type_synonym 'w exec = "'w \<Rightarrow> invocation \<Rightarrow> (py_exn + completed) \<times> 'w"

type_synonym ('a, 'w) action = "'w gui \<Rightarrow> (py_exn + 'a) \<times> 'w gui"

definition ok :: "'a \<Rightarrow> ('a, 'w) action" where
  "ok x s = (Inr x, s)"

definition raise :: "py_exn \<Rightarrow> ('a, 'w) action" where
  "raise e s = (Inl e, s)"

text \<open>Statement sequencing: an exception ends the function, keeping the state reached.\<close>

definition py_bind :: "('a, 'w) action \<Rightarrow> ('a \<Rightarrow> ('b, 'w) action) \<Rightarrow> ('b, 'w) action" where
  "py_bind f g s = (case f s of (Inl e, s') \<Rightarrow> (Inl e, s') | (Inr x, s') \<Rightarrow> g x s')"

definition subprocess_run :: "'w exec \<Rightarrow> invocation \<Rightarrow> (completed, 'w) action" where
  "subprocess_run exec call s =
     (case exec (world s) call of
        (r, w') \<Rightarrow> (r, s\<lparr>run_calls := run_calls s @ [call], world := w'\<rparr>))"

text \<open>
  \<open>d.copy()\<close> makes a new object with the items of \<open>d\<close>; \<open>d[k]\<close> raises \<open>KeyError\<close> on
  a missing key; \<open>d[k] = v\<close> changes the object \<open>d\<close> in place.
\<close>

definition dict_copy :: "ref \<Rightarrow> (ref, 'w) action" where
  "dict_copy d s =
     (let r = next_ref s
      in (Inr r, s\<lparr>dicts := (dicts s)(r := dicts s d), next_ref := Suc r\<rparr>))"

definition dict_getitem :: "ref \<Rightarrow> string \<Rightarrow> (string, 'w) action" where
  "dict_getitem d k s =
     (case dicts s d k of None \<Rightarrow> raise (KeyError k) s | Some v \<Rightarrow> ok v s)"

definition dict_setitem :: "ref \<Rightarrow> string \<Rightarrow> string \<Rightarrow> (unit, 'w) action" where
  "dict_setitem d k v s = (Inr (), s\<lparr>dicts := (dicts s)(d := (dicts s d)(k \<mapsto> v))\<rparr>)"

text \<open>The items an object holds now: what a child started with \<open>env=d\<close> is handed.\<close>

definition dict_items :: "ref \<Rightarrow> (py_dict, 'w) action" where
  "dict_items d s = (Inr (dicts s d), s)"

text \<open>\<open>shell_entry.get()\<close>.\<close>

definition entry_get :: "(string, 'w) action" where
  "entry_get s = (Inr (shell_entry s), s)"

text \<open>\<open>subprocess.run(args)\<close> with every keyword argument at its default.\<close>

definition plain :: "string list \<Rightarrow> invocation" where
  "plain args = \<lparr>cmd = Argv args, capture_output = False, text_mode = False, env = None\<rparr>"

text \<open>\<open>subprocess.run(args, capture_output=True, text=True)\<close>.\<close>

definition captured :: "string list \<Rightarrow> invocation" where
  "captured args = \<lparr>cmd = Argv args, capture_output = True, text_mode = True, env = None\<rparr>"

section \<open>The program\<close>

text \<open>
  \<open>terminal_output.insert(tk.END, text + "\n")\<close> puts the text at the end of the widget;
  \<open>terminal_output.see(tk.END)\<close> scrolls the view to the end.
\<close>

definition log_to_terminal :: "string \<Rightarrow> 'w gui \<Rightarrow> 'w gui" where
  "log_to_terminal text s =
     (let s1 = s\<lparr>terminal_output := terminal_output s @ (text @ nl)\<rparr>
      in s1\<lparr>view_pos := length (terminal_output s1)\<rparr>)"

definition log :: "string \<Rightarrow> (unit, 'w) action" where
  "log text s = (Inr (), log_to_terminal text s)"

definition get_os_info :: "host \<Rightarrow> string \<times> string \<times> string" where
  "get_os_info h = (system h, release h, version h)"

definition install_os_dependencies :: "'w exec \<Rightarrow> host \<Rightarrow> (unit, 'w) action" where
  "install_os_dependencies exec h =
     (case get_os_info h of (os_name, rel, ver) \<Rightarrow>
        py_bind (log (''Detected OS: '' @ os_name @ '' '' @ rel @ '' '' @ ver)) (\<lambda>_.
        if os_name = ''Linux'' then
          py_bind (subprocess_run exec (plain [''sudo'', ''apt-get'', ''update''])) (\<lambda>_.
          py_bind (subprocess_run exec
            (plain [''sudo'', ''apt-get'', ''install'', ''-y'',
                    ''python'' @ PYTHON_VERSION, ''python3-venv''])) (\<lambda>_.
          ok ()))
        else if os_name = ''Darwin'' then
          py_bind (subprocess_run exec
            (plain [''brew'', ''install'', ''python@'' @ PYTHON_VERSION])) (\<lambda>_.
          ok ())
        else if os_name = ''Windows'' then
          log ''Ensure Python is installed manually on Windows.''
        else
          log ''Unsupported OS.''))"

definition create_venv :: "'w exec \<Rightarrow> host \<Rightarrow> (string, 'w) action" where
  "create_venv exec h =
     py_bind (subprocess_run exec (plain [executable h, ''-m'', ''venv'', VENV_NAME])) (\<lambda>_.
     let activate_script =
           os_path_join (flavour h) VENV_NAME
             [if system h = ''Windows'' then ''Scripts'' else ''bin'', ''activate'']
     in ok activate_script)"

definition install_pip_tools :: "'w exec \<Rightarrow> host \<Rightarrow> (unit, 'w) action" where
  "install_pip_tools exec h =
     (let pip_path =
            os_path_join (flavour h) VENV_NAME
              [if system h \<noteq> ''Windows'' then ''bin'' else ''Scripts'', ''pip'']
      in py_bind (subprocess_run exec
           (plain [pip_path, ''install'', ''pip-tools=='' @ PIP_TOOLS_VERSION])) (\<lambda>_.
         ok ()))"

definition compile_requirements :: "'w exec \<Rightarrow> host \<Rightarrow> (unit, 'w) action" where
  "compile_requirements exec h =
     (let pip_compile_path =
            os_path_join (flavour h) VENV_NAME
              [if system h \<noteq> ''Windows'' then ''bin'' else ''Scripts'', ''pip-compile'']
      in py_bind (subprocess_run exec (captured [pip_compile_path, REQUIREMENTS_FILE])) (\<lambda>result.
         py_bind (log (stdout result)) (\<lambda>_.
         if stderr result \<noteq> [] then log (stderr result) else ok ())))"

definition sync_requirements :: "'w exec \<Rightarrow> host \<Rightarrow> (unit, 'w) action" where
  "sync_requirements exec h =
     (let pip_sync_path =
            os_path_join (flavour h) VENV_NAME
              [if system h \<noteq> ''Windows'' then ''bin'' else ''Scripts'', ''pip-sync'']
      in py_bind (subprocess_run exec (captured [pip_sync_path])) (\<lambda>result.
         py_bind (log (stdout result)) (\<lambda>_.
         if stderr result \<noteq> [] then log (stderr result) else ok ())))"

definition get_installed_packages :: "'w exec \<Rightarrow> host \<Rightarrow> (string, 'w) action" where
  "get_installed_packages exec h =
     (let pip_path =
            os_path_join (flavour h) VENV_NAME
              [if system h \<noteq> ''Windows'' then ''bin'' else ''Scripts'', ''pip'']
      in py_bind (subprocess_run exec (captured [pip_path, ''list''])) (\<lambda>result.
         ok (stdout result)))"

text \<open>\<open>messagebox.showinfo(title, message)\<close>.\<close>

definition showinfo :: "string \<Rightarrow> string \<Rightarrow> (unit, 'w) action" where
  "showinfo title message s = (Inr (), s\<lparr>dialogs := dialogs s @ [(title, message)]\<rparr>)"

text \<open>\<open>tab_control.select(t)\<close>.\<close>

definition select_tab :: "tab \<Rightarrow> (unit, 'w) action" where
  "select_tab t s = (Inr (), s\<lparr>selected_tab := t\<rparr>)"

definition on_create_venv :: "'w exec \<Rightarrow> host \<Rightarrow> (unit, 'w) action" where
  "on_create_venv exec h =
     py_bind (log ''Checking OS dependencies...'') (\<lambda>_.
     py_bind (install_os_dependencies exec h) (\<lambda>_.
     py_bind (log ''Creating virtual environment...'') (\<lambda>_.
     py_bind (create_venv exec h) (\<lambda>activate_script.
     py_bind (log (''Virtual environment created at '' @ activate_script)) (\<lambda>_.
     py_bind (log ''Installing pip-tools...'') (\<lambda>_.
     py_bind (install_pip_tools exec h) (\<lambda>_.
     py_bind (log ''pip-tools installed.'') (\<lambda>_.
     select_tab Terminal))))))))"

definition on_status :: "'w exec \<Rightarrow> host \<Rightarrow> (unit, 'w) action" where
  "on_status exec h =
     py_bind (get_installed_packages exec h) (\<lambda>packages.
     showinfo ''Installed Packages'' packages)"

definition on_compile :: "'w exec \<Rightarrow> host \<Rightarrow> (unit, 'w) action" where
  "on_compile exec h =
     py_bind (log ''Running pip-compile...'') (\<lambda>_. compile_requirements exec h)"

definition on_sync :: "'w exec \<Rightarrow> host \<Rightarrow> (unit, 'w) action" where
  "on_sync exec h =
     py_bind (log ''Running pip-sync...'') (\<lambda>_. sync_requirements exec h)"

text \<open>
  \<open>run_shell_command\<close>. In \<open>env["PATH"] = venv_bin + os.pathsep + env["PATH"]\<close> the right
  side is evaluated first, and raises \<open>KeyError\<close> when the host has no such variable. The
  child is handed the items that the object \<open>env\<close> holds when it is started.
\<close>

definition run_shell_command :: "'w exec \<Rightarrow> host \<Rightarrow> (unit, 'w) action" where
  "run_shell_command exec h =
     py_bind entry_get (\<lambda>cmd.
     if strip cmd = [] then log ''No command entered.''
     else
       py_bind (log (''Executing in venv: '' @ cmd)) (\<lambda>_.
       py_bind (dict_copy os_environ) (\<lambda>env.
       let venv_bin = os_path_join (flavour h) VENV_NAME
                        [if system h = ''Windows'' then ''Scripts'' else ''bin'']
       in py_bind (dict_getitem env ''PATH'') (\<lambda>old_path.
          py_bind (dict_setitem env ''PATH''
                     (venv_bin @ os_pathsep (flavour h) @ old_path)) (\<lambda>_.
          py_bind (dict_items env) (\<lambda>items.
          py_bind (subprocess_run exec
                     \<lparr>cmd = Shell cmd, capture_output = True, text_mode = True,
                      env = Some items\<rparr>) (\<lambda>result.
          py_bind (if stdout result \<noteq> [] then log (stdout result) else ok ()) (\<lambda>_.
          if stderr result \<noteq> [] then log (stderr result) else ok ()))))))))"

section \<open>Vocabulary of the specification\<close>

text \<open>
  The platform's binary subdirectory as the specification words it: one name when the
  host reports the Windows platform, another otherwise. The program's functions spell
  the choice out themselves, in two different ways.
\<close>

definition bin_dir :: "host \<Rightarrow> string" where
  "bin_dir h = (if system h = ''Windows'' then ''Scripts'' else ''bin'')"

text \<open>A path built from the Environment Location, its binary subdirectory and further names.\<close>

definition venv_path :: "host \<Rightarrow> string list \<Rightarrow> string" where
  "venv_path h names = os_path_join (flavour h) VENV_NAME (bin_dir h # names)"

text \<open>The child-process calls the specification speaks of.\<close>

definition compile_call :: "host \<Rightarrow> invocation" where
  "compile_call h = captured [venv_path h [''pip-compile''], REQUIREMENTS_FILE]"

definition sync_call :: "host \<Rightarrow> invocation" where
  "sync_call h = captured [venv_path h [''pip-sync'']]"

definition list_call :: "host \<Rightarrow> invocation" where
  "list_call h = captured [venv_path h [''pip''], ''list'']"

definition shell_call :: "host \<Rightarrow> string \<Rightarrow> (string \<rightharpoonup> string) \<Rightarrow> string \<Rightarrow> invocation" where
  "shell_call h command e old_path =
     \<lparr>cmd = Shell command, capture_output = True, text_mode = True,
      env = Some (e(''PATH'' \<mapsto> venv_path h [] @ os_pathsep (flavour h) @ old_path))\<rparr>"

text \<open>
  A world whose completed children have their results changed by \<open>f\<close>: used to say that
  an operation does not look at some part of what a child returns.
\<close>

definition with_results :: "(completed \<Rightarrow> completed) \<Rightarrow> 'w exec \<Rightarrow> 'w exec" where
  "with_results f exec w call = (case exec w call of (r, w') \<Rightarrow> (map_sum id f r, w'))"

text \<open>The uncaptured calls of the program.\<close>

definition venv_call :: "host \<Rightarrow> invocation" where
  "venv_call h = plain [executable h, ''-m'', ''venv'', VENV_NAME]"

definition pip_install_call :: "host \<Rightarrow> invocation" where
  "pip_install_call h = plain [venv_path h [''pip''], ''install'', ''pip-tools=='' @ PIP_TOOLS_VERSION]"

definition apt_update_call :: invocation where
  "apt_update_call = plain [''sudo'', ''apt-get'', ''update'']"

definition apt_install_call :: invocation where
  "apt_install_call =
     plain [''sudo'', ''apt-get'', ''install'', ''-y'', ''python'' @ PYTHON_VERSION, ''python3-venv'']"

definition brew_call :: invocation where
  "brew_call = plain [''brew'', ''install'', ''python@'' @ PYTHON_VERSION]"

text \<open>The line that \<open>install_os_dependencies\<close> logs first.\<close>

definition detected_os :: "host \<Rightarrow> string" where
  "detected_os h = ''Detected OS: '' @ system h @ '' '' @ release h @ '' '' @ version h"

text \<open>Concrete hosts, a freshly started interface, and a world that answers every call alike.\<close>

definition linux_host :: host where
  "linux_host = \<lparr>system = ''Linux'', release = ''6.1.0'', version = ''#1 SMP'',
                  flavour = Posix, executable = ''/usr/bin/python3''\<rparr>"

definition windows_host :: host where
  "windows_host = \<lparr>system = ''Windows'', release = ''10'', version = ''10.0.19045'',
                    flavour = Nt, executable = ''python.exe''\<rparr>"

definition mac_host :: host where
  "mac_host = \<lparr>system = ''Darwin'', release = ''23.1.0'', version = ''Darwin Kernel'',
                flavour = Posix, executable = ''/usr/bin/python3''\<rparr>"

definition start :: "unit gui" where
  "start = \<lparr>terminal_output = [], view_pos = 0, shell_entry = [], selected_tab = Menu,
            dialogs = [], dicts = (\<lambda>_. Map.empty)(os_environ := [''PATH'' \<mapsto> ''/usr/bin'']),
            next_ref = 1, run_calls = [], world = ()\<rparr>"

definition answers :: "(py_exn + completed) \<Rightarrow> unit exec" where
  "answers r w call = (r, w)"

section \<open>Basic facts\<close>

lemmas action_defs = py_bind_def subprocess_run_def log_def ok_def raise_def

lemmas dict_defs = dict_copy_def dict_getitem_def dict_setitem_def dict_items_def
  entry_get_def environ_def

lemmas call_defs = compile_call_def sync_call_def list_call_def shell_call_def venv_path_def bin_dir_def

lemmas os_call_defs = venv_call_def pip_install_call_def apt_update_call_def apt_install_call_def
  brew_call_def detected_os_def


lemma terminal_output_log [simp]:
  "terminal_output (log_to_terminal t s) = terminal_output s @ t @ nl"
  by (simp add: log_to_terminal_def Let_def)

text \<open>A command is blank for the program exactly when all its characters are whitespace.\<close>

lemma strip_empty_iff: "strip s = [] \<longleftrightarrow> list_all isspace s"
proof -
  have drop_all: "(\<forall>x\<in>set (dropWhile P xs). P x) \<longleftrightarrow> (\<forall>x\<in>set xs. P x)"
    for P :: "char \<Rightarrow> bool" and xs
  proof
    assume a: "\<forall>x\<in>set (dropWhile P xs). P x"
    have "dropWhile P xs = []"
    proof (rule ccontr)
      assume ne: "dropWhile P xs \<noteq> []"
      then have "\<not> P (hd (dropWhile P xs))" by (rule hd_dropWhile)
      moreover have "hd (dropWhile P xs) \<in> set (dropWhile P xs)" using ne by simp
      ultimately show False using a by blast
    qed
    then show "\<forall>x\<in>set xs. P x" by (simp add: dropWhile_eq_Nil_conv)
  next
    assume "\<forall>x\<in>set xs. P x"
    then show "\<forall>x\<in>set (dropWhile P xs). P x" using set_dropWhileD by fastforce
  qed
  have "strip s = [] \<longleftrightarrow> (\<forall>x\<in>set (rev (dropWhile isspace s)). isspace x)"
    by (simp add: strip_def dropWhile_eq_Nil_conv)
  also have "\<dots> \<longleftrightarrow> (\<forall>x\<in>set s. isspace x)" using drop_all[of isspace s] by simp
  finally show ?thesis by (simp add: list_all_iff)
qed

text \<open>The joined paths, written out with the separator of the host.\<close>

lemma venv_path_explicit:
  "venv_path h [] = VENV_NAME @ os_sep (flavour h) @ bin_dir h"
  "name \<noteq> [] \<Longrightarrow> \<not> is_sep (flavour h) (hd name) \<Longrightarrow>
     venv_path h [name] = VENV_NAME @ os_sep (flavour h) @ bin_dir h @ os_sep (flavour h) @ name"
  by (cases "flavour h";
      simp add: venv_path_def os_path_join_def join_step_def VENV_NAME_def bin_dir_def
        is_sep_def os_sep_def)+

subsection \<open>What an operation does once the world has answered its call\<close>

lemma compile_requirements_completed:
  assumes "exec (world s) (compile_call h) = (Inr r, w')"
  shows "compile_requirements exec h s =
           (Inr (), (if stderr r = [] then id else log_to_terminal (stderr r))
                      (log_to_terminal (stdout r)
                         (s\<lparr>run_calls := run_calls s @ [compile_call h], world := w'\<rparr>)))"
  using assms
  by (cases "system h = ''Windows''"; simp add: compile_requirements_def action_defs call_defs)

lemma sync_requirements_completed:
  assumes "exec (world s) (sync_call h) = (Inr r, w')"
  shows "sync_requirements exec h s =
           (Inr (), (if stderr r = [] then id else log_to_terminal (stderr r))
                      (log_to_terminal (stdout r)
                         (s\<lparr>run_calls := run_calls s @ [sync_call h], world := w'\<rparr>)))"
  using assms
  by (cases "system h = ''Windows''"; simp add: sync_requirements_def action_defs call_defs)

lemma run_shell_command_completed:
  assumes "strip (shell_entry s) \<noteq> []" and "environ s ''PATH'' = Some old_path"
    and "exec (world s) (shell_call h (shell_entry s) (environ s) old_path) = (Inr r, w')"
  shows "run_shell_command exec h s =
           (Inr (), (if stderr r = [] then id else log_to_terminal (stderr r))
                      ((if stdout r = [] then id else log_to_terminal (stdout r))
                         ((log_to_terminal (''Executing in venv: '' @ shell_entry s) s)
                            \<lparr>dicts := (dicts s)(next_ref s := (environ s)(''PATH'' \<mapsto>
                               venv_path h [] @ os_pathsep (flavour h) @ old_path)),
                             next_ref := Suc (next_ref s),
                             run_calls := run_calls s @
                               [shell_call h (shell_entry s) (environ s) old_path],
                             world := w'\<rparr>)))"
  using assms
  by (cases "system h = ''Windows''";
      simp add: run_shell_command_def action_defs dict_defs call_defs log_to_terminal_def Let_def)

lemma compile_requirements_raised:
  assumes "exec (world s) (compile_call h) = (Inl e, w')"
  shows "compile_requirements exec h s =
           (Inl e, s\<lparr>run_calls := run_calls s @ [compile_call h], world := w'\<rparr>)"
  using assms
  by (cases "system h = ''Windows''"; simp add: compile_requirements_def action_defs call_defs)

lemma sync_requirements_raised:
  assumes "exec (world s) (sync_call h) = (Inl e, w')"
  shows "sync_requirements exec h s =
           (Inl e, s\<lparr>run_calls := run_calls s @ [sync_call h], world := w'\<rparr>)"
  using assms
  by (cases "system h = ''Windows''"; simp add: sync_requirements_def action_defs call_defs)

lemma run_shell_command_raised:
  assumes "strip (shell_entry s) \<noteq> []" and "environ s ''PATH'' = Some old_path"
    and "exec (world s) (shell_call h (shell_entry s) (environ s) old_path) = (Inl e, w')"
  shows "run_shell_command exec h s =
           (Inl e, (log_to_terminal (''Executing in venv: '' @ shell_entry s) s)
                     \<lparr>dicts := (dicts s)(next_ref s := (environ s)(''PATH'' \<mapsto>
                        venv_path h [] @ os_pathsep (flavour h) @ old_path)),
                      next_ref := Suc (next_ref s),
                      run_calls := run_calls s @
                        [shell_call h (shell_entry s) (environ s) old_path],
                      world := w'\<rparr>)"
  using assms
  by (cases "system h = ''Windows''";
      simp add: run_shell_command_def action_defs dict_defs call_defs log_to_terminal_def Let_def)

text \<open>On a host without a \<open>PATH\<close> variable the lookup fails before any child is started.\<close>

lemma run_shell_command_no_path:
  assumes "strip (shell_entry s) \<noteq> []" and "environ s ''PATH'' = None"
  shows "run_shell_command exec h s =
           (Inl (KeyError ''PATH''),
            (log_to_terminal (''Executing in venv: '' @ shell_entry s) s)
              \<lparr>dicts := (dicts s)(next_ref s := environ s), next_ref := Suc (next_ref s)\<rparr>)"
  using assms
  by (simp add: run_shell_command_def action_defs dict_defs log_to_terminal_def Let_def)

lemma get_installed_packages_completed:
  assumes "exec (world s) (list_call h) = (Inr r, w')"
  shows "get_installed_packages exec h s =
           (Inr (stdout r), s\<lparr>run_calls := run_calls s @ [list_call h], world := w'\<rparr>)"
  using assms
  by (cases "system h = ''Windows''"; simp add: get_installed_packages_def action_defs call_defs)

lemma create_venv_completed:
  assumes "exec (world s) (venv_call h) = (Inr r, w')"
  shows "create_venv exec h s =
           (Inr (venv_path h [''activate'']),
            s\<lparr>run_calls := run_calls s @ [venv_call h], world := w'\<rparr>)"
  using assms
  by (cases "system h = ''Windows''"; simp add: create_venv_def action_defs call_defs os_call_defs)

lemma install_pip_tools_completed:
  assumes "exec (world s) (pip_install_call h) = (Inr r, w')"
  shows "install_pip_tools exec h s =
           (Inr (), s\<lparr>run_calls := run_calls s @ [pip_install_call h], world := w'\<rparr>)"
  using assms
  by (cases "system h = ''Windows''"; simp add: install_pip_tools_def action_defs call_defs os_call_defs)

lemma install_os_dependencies_linux:
  assumes "system h = ''Linux''"
    and "exec (world s) apt_update_call = (Inr r1, w1)"
    and "exec w1 apt_install_call = (Inr r2, w2)"
  shows "install_os_dependencies exec h s =
           (Inr (), (log_to_terminal (detected_os h) s)
                      \<lparr>run_calls := run_calls s @ [apt_update_call, apt_install_call],
                       world := w2\<rparr>)"
  using assms
  by (simp add: install_os_dependencies_def get_os_info_def action_defs os_call_defs
      log_to_terminal_def Let_def)

lemma install_os_dependencies_darwin:
  assumes "system h = ''Darwin''"
    and "exec (world s) brew_call = (Inr r, w')"
  shows "install_os_dependencies exec h s =
           (Inr (), (log_to_terminal (detected_os h) s)
                      \<lparr>run_calls := run_calls s @ [brew_call], world := w'\<rparr>)"
  using assms
  by (simp add: install_os_dependencies_def get_os_info_def action_defs os_call_defs
      log_to_terminal_def Let_def)

text \<open>What the uncaptured children and the package listing leave in the log: nothing.\<close>

lemma log_get_installed_packages:
  "terminal_output (snd (get_installed_packages exec h s)) = terminal_output s"
  by (simp add: get_installed_packages_def action_defs Let_def split: prod.splits sum.splits)

lemma log_create_venv:
  "terminal_output (snd (create_venv exec h s)) = terminal_output s"
  by (simp add: create_venv_def action_defs Let_def split: prod.splits sum.splits)

lemma log_install_pip_tools:
  "terminal_output (snd (install_pip_tools exec h s)) = terminal_output s"
  by (simp add: install_pip_tools_def action_defs Let_def split: prod.splits sum.splits)

lemma log_install_os_dependencies:
  "terminal_output (snd (install_os_dependencies exec h s)) =
     terminal_output s @ detected_os h @ nl @
     (if system h = ''Linux'' \<or> system h = ''Darwin'' then []
      else if system h = ''Windows'' then ''Ensure Python is installed manually on Windows.'' @ nl
      else ''Unsupported OS.'' @ nl)"
  by (simp add: install_os_dependencies_def get_os_info_def action_defs os_call_defs
      split: prod.splits sum.splits)

text \<open>An uncaptured child's result is thrown away, so no change to it changes anything.\<close>

lemma discard_result:
  "py_bind (subprocess_run (with_results f exec) call) (\<lambda>_. k) =
   py_bind (subprocess_run exec call) (\<lambda>_. k)"
proof
  fix s :: "'a gui"
  obtain r w' where answer: "exec (world s) call = (r, w')"
    by (cases "exec (world s) call")
  then show "py_bind (subprocess_run (with_results f exec) call) (\<lambda>_. k) s =
      py_bind (subprocess_run exec call) (\<lambda>_. k) s"
    by (cases r) (simp_all add: py_bind_def subprocess_run_def with_results_def)
qed

lemma install_os_dependencies_discards:
  "install_os_dependencies (with_results f exec) h = install_os_dependencies exec h"
  by (simp add: install_os_dependencies_def get_os_info_def discard_result)

lemma create_venv_discards: "create_venv (with_results f exec) h = create_venv exec h"
  by (simp add: create_venv_def discard_result)

lemma install_pip_tools_discards:
  "install_pip_tools (with_results f exec) h = install_pip_tools exec h"
  by (simp add: install_pip_tools_def discard_result Let_def)

lemma on_create_venv_discards: "on_create_venv (with_results f exec) h = on_create_venv exec h"
  by (simp add: on_create_venv_def install_os_dependencies_discards create_venv_discards
      install_pip_tools_discards)

subsection \<open>Message boxes and the growth of the log\<close>

lemma dialogs_py_bind:
  assumes "\<And>t. dialogs (snd (f t)) = dialogs t"
    and "\<And>x t. dialogs (snd (g x t)) = dialogs t"
  shows "dialogs (snd (py_bind f g s)) = dialogs s"
proof (cases "f s")
  case (Pair r s')
  then have "dialogs s' = dialogs s" using assms(1)[of s] by simp
  then show ?thesis using Pair assms(2) by (cases r) (simp_all add: py_bind_def)
qed

lemma dialogs_if:
  assumes "dialogs (snd (a s)) = dialogs s" and "dialogs (snd (b s)) = dialogs s"
  shows "dialogs (snd ((if c then a else b) s)) = dialogs s"
  using assms by simp

lemma dialogs_basic:
  "dialogs (snd (log t s)) = dialogs s"
  "dialogs (snd (ok x s)) = dialogs s"
  "dialogs (snd (raise e s)) = dialogs s"
  "dialogs (snd (select_tab tb s)) = dialogs s"
  "dialogs (snd (subprocess_run exec call s)) = dialogs s"
  "dialogs (snd (entry_get s)) = dialogs s"
  "dialogs (snd (dict_copy d s)) = dialogs s"
  "dialogs (snd (dict_getitem d k s)) = dialogs s"
  "dialogs (snd (dict_setitem d k v s)) = dialogs s"
  "dialogs (snd (dict_items d s)) = dialogs s"
  by (simp_all add: log_def log_to_terminal_def Let_def ok_def raise_def select_tab_def
      subprocess_run_def dict_defs split: prod.splits option.splits)

lemmas dialogs_rules = dialogs_py_bind dialogs_if dialogs_basic

lemma dialogs_install_os_dependencies:
  "dialogs (snd (install_os_dependencies exec h s)) = dialogs s"
  unfolding install_os_dependencies_def get_os_info_def prod.case
  by (intro dialogs_rules)

lemma dialogs_create_venv: "dialogs (snd (create_venv exec h s)) = dialogs s"
  unfolding create_venv_def Let_def by (intro dialogs_rules)

lemma dialogs_install_pip_tools: "dialogs (snd (install_pip_tools exec h s)) = dialogs s"
  unfolding install_pip_tools_def Let_def by (intro dialogs_rules)

lemma dialogs_compile_requirements: "dialogs (snd (compile_requirements exec h s)) = dialogs s"
  unfolding compile_requirements_def Let_def by (intro dialogs_rules)

lemma dialogs_sync_requirements: "dialogs (snd (sync_requirements exec h s)) = dialogs s"
  unfolding sync_requirements_def Let_def by (intro dialogs_rules)

lemma dialogs_on_create_venv: "dialogs (snd (on_create_venv exec h s)) = dialogs s"
  unfolding on_create_venv_def
  by (intro dialogs_rules dialogs_install_os_dependencies dialogs_create_venv
      dialogs_install_pip_tools)

lemma dialogs_on_compile: "dialogs (snd (on_compile exec h s)) = dialogs s"
  unfolding on_compile_def by (intro dialogs_rules dialogs_compile_requirements)

lemma dialogs_on_sync: "dialogs (snd (on_sync exec h s)) = dialogs s"
  unfolding on_sync_def by (intro dialogs_rules dialogs_sync_requirements)

lemma dialogs_run_shell_command: "dialogs (snd (run_shell_command exec h s)) = dialogs s"
  unfolding run_shell_command_def Let_def by (intro dialogs_rules)

text \<open>The log is append-only: every action leaves the old text as a prefix of the new.\<close>

lemma grows_py_bind:
  assumes "\<And>t. prefix (terminal_output t) (terminal_output (snd (f t)))"
    and "\<And>x t. prefix (terminal_output t) (terminal_output (snd (g x t)))"
  shows "prefix (terminal_output s) (terminal_output (snd (py_bind f g s)))"
proof (cases "f s")
  case (Pair r s')
  then have first: "prefix (terminal_output s) (terminal_output s')"
    using assms(1)[of s] by simp
  show ?thesis
  proof (cases r)
    case (Inl e)
    with Pair first show ?thesis by (simp add: py_bind_def)
  next
    case (Inr x)
    with Pair have "py_bind f g s = g x s'" by (simp add: py_bind_def)
    with first assms(2)[of s' x] show ?thesis by (auto intro: prefix_order.trans)
  qed
qed

lemma grows_if:
  assumes "prefix (terminal_output s) (terminal_output (snd (a s)))"
    and "prefix (terminal_output s) (terminal_output (snd (b s)))"
  shows "prefix (terminal_output s) (terminal_output (snd ((if c then a else b) s)))"
  using assms by simp

lemma grows_basic:
  "prefix (terminal_output s) (terminal_output (snd (log t s)))"
  "prefix (terminal_output s) (terminal_output (snd (ok x s)))"
  "prefix (terminal_output s) (terminal_output (snd (raise e s)))"
  "prefix (terminal_output s) (terminal_output (snd (select_tab tb s)))"
  "prefix (terminal_output s) (terminal_output (snd (subprocess_run exec call s)))"
  "prefix (terminal_output s) (terminal_output (snd (entry_get s)))"
  "prefix (terminal_output s) (terminal_output (snd (dict_copy d s)))"
  "prefix (terminal_output s) (terminal_output (snd (dict_getitem d k s)))"
  "prefix (terminal_output s) (terminal_output (snd (dict_setitem d k v s)))"
  "prefix (terminal_output s) (terminal_output (snd (dict_items d s)))"
  by (simp_all add: log_def ok_def raise_def select_tab_def subprocess_run_def dict_defs Let_def
      split: prod.splits option.splits)

lemmas grows_rules = grows_py_bind grows_if grows_basic

lemma grows_install_os_dependencies:
  "prefix (terminal_output s) (terminal_output (snd (install_os_dependencies exec h s)))"
  unfolding install_os_dependencies_def get_os_info_def prod.case
  by (intro grows_rules)

lemma grows_create_venv:
  "prefix (terminal_output s) (terminal_output (snd (create_venv exec h s)))"
  unfolding create_venv_def Let_def by (intro grows_rules)

lemma grows_install_pip_tools:
  "prefix (terminal_output s) (terminal_output (snd (install_pip_tools exec h s)))"
  unfolding install_pip_tools_def Let_def by (intro grows_rules)

lemma grows_compile_requirements:
  "prefix (terminal_output s) (terminal_output (snd (compile_requirements exec h s)))"
  unfolding compile_requirements_def Let_def by (intro grows_rules)

lemma grows_sync_requirements:
  "prefix (terminal_output s) (terminal_output (snd (sync_requirements exec h s)))"
  unfolding sync_requirements_def Let_def by (intro grows_rules)

lemma grows_on_create_venv:
  "prefix (terminal_output s) (terminal_output (snd (on_create_venv exec h s)))"
  unfolding on_create_venv_def
  by (intro grows_rules grows_install_os_dependencies grows_create_venv grows_install_pip_tools)

lemma grows_on_compile:
  "prefix (terminal_output s) (terminal_output (snd (on_compile exec h s)))"
  unfolding on_compile_def by (intro grows_rules grows_compile_requirements)

lemma grows_on_sync:
  "prefix (terminal_output s) (terminal_output (snd (on_sync exec h s)))"
  unfolding on_sync_def by (intro grows_rules grows_sync_requirements)

lemma grows_run_shell_command:
  "prefix (terminal_output s) (terminal_output (snd (run_shell_command exec h s)))"
  unfolding run_shell_command_def Let_def by (intro grows_rules)

text \<open>Every child of the compile, sync and shell actions runs with its output captured.\<close>

lemma captured_on_compile:
  "list_all capture_output (drop (length (run_calls s)) (run_calls (snd (on_compile exec h s))))"
  by (simp add: on_compile_def compile_requirements_def action_defs log_to_terminal_def Let_def
      captured_def split: prod.splits sum.splits)

lemma captured_on_sync:
  "list_all capture_output (drop (length (run_calls s)) (run_calls (snd (on_sync exec h s))))"
  by (simp add: on_sync_def sync_requirements_def action_defs log_to_terminal_def Let_def
      captured_def split: prod.splits sum.splits)

lemma run_calls_run_shell_command:
  "run_calls (snd (run_shell_command exec h s)) =
     run_calls s @
     (if strip (shell_entry s) = [] then []
      else case environ s ''PATH'' of
             None \<Rightarrow> []
           | Some old_path \<Rightarrow> [shell_call h (shell_entry s) (environ s) old_path])"
proof (cases "strip (shell_entry s) = []")
  case True
  then show ?thesis
    by (simp add: run_shell_command_def py_bind_def entry_get_def log_def log_to_terminal_def
        Let_def)
next
  case entered: False
  show ?thesis
  proof (cases "environ s ''PATH''")
    case None
    with entered show ?thesis
      by (simp add: run_shell_command_no_path log_to_terminal_def Let_def)
  next
    case (Some old_path)
    obtain r w' where answer:
      "exec (world s) (shell_call h (shell_entry s) (environ s) old_path) = (r, w')"
      by (cases "exec (world s) (shell_call h (shell_entry s) (environ s) old_path)")
    show ?thesis
    proof (cases r)
      case (Inl e)
      with entered Some answer show ?thesis
        by (simp add: run_shell_command_raised[where old_path = old_path and w' = w'])
    next
      case (Inr res)
      with entered Some answer show ?thesis
        by (simp add: run_shell_command_completed[where old_path = old_path and w' = w']
            log_to_terminal_def Let_def)
    qed
  qed
qed

text \<open>
  The dictionary made by \<open>copy()\<close> is a new object, so writing to it leaves \<open>os.environ\<close>
  alone, provided the address of \<open>os.environ\<close> is one already in use.
\<close>

lemma environ_log_to_terminal [simp]:
  "environ (log_to_terminal t s) = environ s" "next_ref (log_to_terminal t s) = next_ref s"
  by (simp_all add: environ_def log_to_terminal_def Let_def)

lemma environ_run_shell_command:
  assumes "os_environ < next_ref s"
  shows "environ (snd (run_shell_command exec h s)) = environ s
       \<and> os_environ < next_ref (snd (run_shell_command exec h s))"
proof (cases "strip (shell_entry s) = []")
  case True
  with assms show ?thesis
    by (simp add: run_shell_command_def py_bind_def entry_get_def log_def)
next
  case entered: False
  show ?thesis
  proof (cases "environ s ''PATH''")
    case None
    with entered assms show ?thesis
      by (simp add: run_shell_command_no_path) (simp add: environ_def)
  next
    case (Some old_path)
    obtain r w' where answer:
      "exec (world s) (shell_call h (shell_entry s) (environ s) old_path) = (r, w')"
      by (cases "exec (world s) (shell_call h (shell_entry s) (environ s) old_path)")
    show ?thesis
    proof (cases r)
      case (Inl e)
      with entered Some answer assms show ?thesis
        by (simp add: run_shell_command_raised[where old_path = old_path and w' = w'])
           (simp add: environ_def)
    next
      case (Inr res)
      with entered Some answer assms show ?thesis
        by (simp add: run_shell_command_completed[where old_path = old_path and w' = w'])
           (simp add: environ_def)
    qed
  qed
qed

lemma captured_run_shell_command:
  "list_all capture_output
     (drop (length (run_calls s)) (run_calls (snd (run_shell_command exec h s))))"
  by (simp add: run_calls_run_shell_command shell_call_def split: option.splits)

lemma on_status_log_unchanged:
  "terminal_output (snd (on_status exec h s)) = terminal_output s"
  by (simp add: on_status_def get_installed_packages_def showinfo_def action_defs Let_def
      split: prod.splits sum.splits)

lemma on_status_dialog:
  assumes "exec (world s) (list_call h) = (Inr r, w')"
  shows "dialogs (snd (on_status exec h s)) = dialogs s @ [(''Installed Packages'', stdout r)]"
  using assms
  by (cases "system h = ''Windows''";
      simp add: on_status_def get_installed_packages_def showinfo_def action_defs call_defs)

text \<open>Every child of the create-venv action runs without capture.\<close>

lemma uncaptured_py_bind:
  assumes "\<And>t. \<exists>new. run_calls (snd (f t)) = run_calls t @ new \<and> list_all (\<lambda>c. \<not> capture_output c) new"
    and "\<And>x t. \<exists>new. run_calls (snd (g x t)) = run_calls t @ new \<and> list_all (\<lambda>c. \<not> capture_output c) new"
  shows "\<exists>new. run_calls (snd (py_bind f g s)) = run_calls s @ new
           \<and> list_all (\<lambda>c. \<not> capture_output c) new"
proof (cases "f s")
  case (Pair r s')
  obtain n1 where first: "run_calls s' = run_calls s @ n1" "list_all (\<lambda>c. \<not> capture_output c) n1"
    using assms(1)[of s] Pair by auto
  show ?thesis
  proof (cases r)
    case (Inl e)
    with Pair first show ?thesis by (simp add: py_bind_def)
  next
    case (Inr x)
    with Pair have step: "py_bind f g s = g x s'" by (simp add: py_bind_def)
    obtain n2 where second: "run_calls (snd (g x s')) = run_calls s' @ n2"
        "list_all (\<lambda>c. \<not> capture_output c) n2"
      using assms(2)[of x s'] by auto
    have "run_calls (snd (py_bind f g s)) = run_calls s @ (n1 @ n2)"
      using step first(1) second(1) by simp
    moreover have "list_all (\<lambda>c. \<not> capture_output c) (n1 @ n2)"
      using first(2) second(2) by simp
    ultimately show ?thesis by blast
  qed
qed

lemma uncaptured_if:
  assumes "\<exists>new. run_calls (snd (a s)) = run_calls s @ new \<and> list_all (\<lambda>c. \<not> capture_output c) new"
    and "\<exists>new. run_calls (snd (b s)) = run_calls s @ new \<and> list_all (\<lambda>c. \<not> capture_output c) new"
  shows "\<exists>new. run_calls (snd ((if c then a else b) s)) = run_calls s @ new
           \<and> list_all (\<lambda>c. \<not> capture_output c) new"
  using assms by simp

lemma uncaptured_basic:
  "\<exists>new. run_calls (snd (log t s)) = run_calls s @ new \<and> list_all (\<lambda>c. \<not> capture_output c) new"
  "\<exists>new. run_calls (snd (ok x s)) = run_calls s @ new \<and> list_all (\<lambda>c. \<not> capture_output c) new"
  "\<exists>new. run_calls (snd (select_tab tb s)) = run_calls s @ new
     \<and> list_all (\<lambda>c. \<not> capture_output c) new"
  "\<exists>new. run_calls (snd (subprocess_run exec (plain args) s)) = run_calls s @ new
     \<and> list_all (\<lambda>c. \<not> capture_output c) new"
  by (simp_all add: log_def log_to_terminal_def Let_def ok_def select_tab_def subprocess_run_def
      plain_def split: prod.splits)

lemmas uncaptured_rules = uncaptured_py_bind uncaptured_if uncaptured_basic

lemma uncaptured_on_create_venv:
  "list_all (\<lambda>c. \<not> capture_output c)
     (drop (length (run_calls s)) (run_calls (snd (on_create_venv exec h s))))"
proof -
  have "\<exists>new. run_calls (snd (on_create_venv exec h s)) = run_calls s @ new
      \<and> list_all (\<lambda>c. \<not> capture_output c) new"
    unfolding on_create_venv_def install_os_dependencies_def get_os_info_def prod.case
      create_venv_def install_pip_tools_def Let_def
    by (intro uncaptured_rules)
  then show ?thesis by auto
qed

section \<open>The claims\<close>

text \<open>
  Claim C1. Every operation that targets the isolated environment builds its executable
  path, or its \<open>PATH\<close> entry, from the Environment Location \<open>VENV_NAME\<close> joined with the
  platform's binary subdirectory, \<open>Scripts\<close> on Windows and \<open>bin\<close> elsewhere: installing
  pip-tools, compiling, syncing and listing call the program at that place, \<open>create_venv\<close>
  returns the activate path there once its child has run, and \<open>run_shell_command\<close> puts
  that directory first in the child's \<open>PATH\<close>.
\<close>

theorem venv_paths_platform:
  "run_calls (snd (install_pip_tools exec h s)) =
     run_calls s @ [plain [venv_path h [''pip''], ''install'', ''pip-tools=='' @ PIP_TOOLS_VERSION]]
   \<and> run_calls (snd (compile_requirements exec h s)) =
     run_calls s @ [captured [venv_path h [''pip-compile''], REQUIREMENTS_FILE]]
   \<and> run_calls (snd (sync_requirements exec h s)) =
     run_calls s @ [captured [venv_path h [''pip-sync'']]]
   \<and> run_calls (snd (get_installed_packages exec h s)) =
     run_calls s @ [captured [venv_path h [''pip''], ''list'']]
   \<and> (exec (world s) (plain [executable h, ''-m'', ''venv'', VENV_NAME]) = (Inr r, w') \<longrightarrow>
        fst (create_venv exec h s) = Inr (venv_path h [''activate'']))
   \<and> (strip (shell_entry s) \<noteq> [] \<and> environ s ''PATH'' = Some old_path \<longrightarrow>
        (\<exists>call env'. run_calls (snd (run_shell_command exec h s)) = run_calls s @ [call]
           \<and> env call = Some env'
           \<and> env' ''PATH'' = Some (venv_path h [] @ os_pathsep (flavour h) @ old_path)))
   \<and> venv_path h [] = VENV_NAME @ os_sep (flavour h) @ bin_dir h
   \<and> (\<forall>name \<in> {''pip'', ''pip-compile'', ''pip-sync'', ''activate''}.
        venv_path h [name] = venv_path h [] @ os_sep (flavour h) @ name)
   \<and> bin_dir h = (if system h = ''Windows'' then ''Scripts'' else ''bin'')"
proof -
  have a: "run_calls (snd (install_pip_tools exec h s)) =
     run_calls s @ [plain [venv_path h [''pip''], ''install'', ''pip-tools=='' @ PIP_TOOLS_VERSION]]"
    by (simp add: install_pip_tools_def action_defs Let_def venv_path_def bin_dir_def
        split: prod.splits sum.splits)
  have b: "run_calls (snd (compile_requirements exec h s)) =
     run_calls s @ [captured [venv_path h [''pip-compile''], REQUIREMENTS_FILE]]"
    by (simp add: compile_requirements_def action_defs log_to_terminal_def Let_def venv_path_def
        bin_dir_def split: prod.splits sum.splits)
  have c: "run_calls (snd (sync_requirements exec h s)) =
     run_calls s @ [captured [venv_path h [''pip-sync'']]]"
    by (simp add: sync_requirements_def action_defs log_to_terminal_def Let_def venv_path_def
        bin_dir_def split: prod.splits sum.splits)
  have d: "run_calls (snd (get_installed_packages exec h s)) =
     run_calls s @ [captured [venv_path h [''pip''], ''list'']]"
    by (simp add: get_installed_packages_def action_defs Let_def venv_path_def bin_dir_def
        split: prod.splits sum.splits)
  have e: "exec (world s) (plain [executable h, ''-m'', ''venv'', VENV_NAME]) = (Inr r, w') \<longrightarrow>
        fst (create_venv exec h s) = Inr (venv_path h [''activate''])"
    by (simp add: create_venv_def action_defs venv_path_def bin_dir_def)
  have f: "strip (shell_entry s) \<noteq> [] \<and> environ s ''PATH'' = Some old_path \<longrightarrow>
        (\<exists>call env'. run_calls (snd (run_shell_command exec h s)) = run_calls s @ [call]
           \<and> env call = Some env'
           \<and> env' ''PATH'' = Some (venv_path h [] @ os_pathsep (flavour h) @ old_path))"
    by (simp add: run_shell_command_def action_defs dict_defs log_to_terminal_def Let_def venv_path_def
        bin_dir_def split: prod.splits sum.splits)
  have g: "\<forall>name \<in> {''pip'', ''pip-compile'', ''pip-sync'', ''activate''}.
        venv_path h [name] = venv_path h [] @ os_sep (flavour h) @ name"
    by (cases "flavour h"; simp add: venv_path_explicit is_sep_def)
  show ?thesis
    using a b c d e f g venv_path_explicit(1)[of h] by (simp add: bin_dir_def)
qed

theorem venv_paths_platform_witness:
  "answers (Inr \<lparr>returncode = 0, stdout = [], stderr = []\<rparr>) (world (start\<lparr>shell_entry := ''ls''\<rparr>))
     (plain [executable windows_host, ''-m'', ''venv'', VENV_NAME]) =
     (Inr \<lparr>returncode = 0, stdout = [], stderr = []\<rparr>, ())
   \<and> strip (shell_entry (start\<lparr>shell_entry := ''ls''\<rparr>)) \<noteq> []
   \<and> environ (start\<lparr>shell_entry := ''ls''\<rparr>) ''PATH'' = Some ''/usr/bin''
   \<and> ''pip-sync'' \<in> {''pip'', ''pip-compile'', ''pip-sync'', ''activate''}
   \<and> fst (create_venv (answers (Inr \<lparr>returncode = 0, stdout = [], stderr = []\<rparr>)) windows_host
        (start\<lparr>shell_entry := ''ls''\<rparr>)) = Inr (venv_path windows_host [''activate''])
   \<and> venv_path windows_host [''pip-sync''] =
        ''venv_running'' @ [CHR 0x5C] @ ''Scripts'' @ [CHR 0x5C] @ ''pip-sync''
   \<and> (\<exists>call env'.
        run_calls (snd (run_shell_command (answers (Inr \<lparr>returncode = 0, stdout = [], stderr = []\<rparr>))
          windows_host (start\<lparr>shell_entry := ''ls''\<rparr>))) = [call]
        \<and> env call = Some env'
        \<and> env' ''PATH'' = Some (''venv_running'' @ [CHR 0x5C] @ ''Scripts;/usr/bin''))"
proof -
  let ?x = "answers (Inr \<lparr>returncode = 0, stdout = [], stderr = []\<rparr>)"
  let ?s = "start\<lparr>shell_entry := ''ls''\<rparr>"
  note T = venv_paths_platform[of ?x windows_host ?s
      "\<lparr>returncode = 0, stdout = [], stderr = []\<rparr>" "()" "''/usr/bin''"]
  have h1: "?x (world ?s) (plain [executable windows_host, ''-m'', ''venv'', VENV_NAME]) =
      (Inr \<lparr>returncode = 0, stdout = [], stderr = []\<rparr>, ())"
    by (simp add: answers_def)
  have h2: "strip (shell_entry ?s) \<noteq> []"
    by (simp add: strip_def isspace_def)
  have h3: "environ ?s ''PATH'' = Some ''/usr/bin''"
    by (simp add: start_def environ_def)
  have h4: "''pip-sync'' \<in> {''pip'', ''pip-compile'', ''pip-sync'', ''activate''}"
    by simp
  have vals: "os_sep (flavour windows_host) = [CHR 0x5C]"
    "os_pathsep (flavour windows_host) = '';''" "bin_dir windows_host = ''Scripts''"
    by (simp_all add: windows_host_def os_sep_def os_pathsep_def bin_dir_def)
  note T5 = T[THEN conjunct2, THEN conjunct2, THEN conjunct2, THEN conjunct2]
  note T7 = T5[THEN conjunct2, THEN conjunct2]
  have c1: "fst (create_venv ?x windows_host ?s) = Inr (venv_path windows_host [''activate''])"
    by (rule T5[THEN conjunct1, THEN mp, OF h1])
  have c2: "venv_path windows_host [] = VENV_NAME @ os_sep (flavour windows_host) @ bin_dir windows_host"
    by (rule T7[THEN conjunct1])
  have c3: "venv_path windows_host [''pip-sync''] =
      venv_path windows_host [] @ os_sep (flavour windows_host) @ ''pip-sync''"
    by (rule T7[THEN conjunct2, THEN conjunct1, THEN bspec, OF h4])
  have c4: "\<exists>call env'. run_calls (snd (run_shell_command ?x windows_host ?s)) =
        run_calls ?s @ [call] \<and> env call = Some env'
        \<and> env' ''PATH'' = Some (venv_path windows_host [] @ os_pathsep (flavour windows_host) @ ''/usr/bin'')"
    by (rule T5[THEN conjunct2, THEN conjunct1, THEN mp, OF conjI[OF h2 h3]])
  have c5: "run_calls ?s = []" by (simp add: start_def environ_def)
  show ?thesis
    using h1 h2 h3 h4 c1 c4 unfolding c3 c2 c5 vals VENV_NAME_def by simp
qed

text \<open>
  Claim C2, as amended. After a child of \<open>compile_requirements\<close>, \<open>sync_requirements\<close> or
  \<open>run_shell_command\<close> has completed, the log has grown by the captured stdout and then the
  captured stderr, each followed by a newline, except that an empty stderr adds nothing,
  and in \<open>run_shell_command\<close> (which first logs the line \<open>Executing in venv: ...\<close>) an empty
  stdout adds nothing either.
\<close>

theorem captured_output_logged:
  "(exec (world s) (compile_call h) = (Inr r, w') \<longrightarrow>
      terminal_output (snd (compile_requirements exec h s)) =
        terminal_output s @ stdout r @ nl @ (if stderr r = [] then [] else stderr r @ nl))
   \<and> (exec (world s) (sync_call h) = (Inr r, w') \<longrightarrow>
      terminal_output (snd (sync_requirements exec h s)) =
        terminal_output s @ stdout r @ nl @ (if stderr r = [] then [] else stderr r @ nl))
   \<and> (strip (shell_entry s) \<noteq> [] \<and> environ s ''PATH'' = Some old_path
      \<and> exec (world s) (shell_call h (shell_entry s) (environ s) old_path) = (Inr r, w') \<longrightarrow>
      terminal_output (snd (run_shell_command exec h s)) =
        terminal_output s @ ''Executing in venv: '' @ shell_entry s @ nl
          @ (if stdout r = [] then [] else stdout r @ nl)
          @ (if stderr r = [] then [] else stderr r @ nl))"
  using compile_requirements_completed[of exec s h r w']
    sync_requirements_completed[of exec s h r w']
    run_shell_command_completed[of s old_path exec h r w']
  by simp

theorem captured_output_logged_witness:
  "answers (Inr \<lparr>returncode = 0, stdout = ''out'', stderr = ''err''\<rparr>)
     (world (start\<lparr>shell_entry := ''ls''\<rparr>)) (compile_call linux_host) =
     (Inr \<lparr>returncode = 0, stdout = ''out'', stderr = ''err''\<rparr>, ())
   \<and> strip (shell_entry (start\<lparr>shell_entry := ''ls''\<rparr>)) \<noteq> []
   \<and> environ (start\<lparr>shell_entry := ''ls''\<rparr>) ''PATH'' = Some ''/usr/bin''
   \<and> terminal_output (snd (compile_requirements
        (answers (Inr \<lparr>returncode = 0, stdout = ''out'', stderr = ''err''\<rparr>)) linux_host
        (start\<lparr>shell_entry := ''ls''\<rparr>))) = ''out'' @ nl @ ''err'' @ nl
   \<and> terminal_output (snd (sync_requirements
        (answers (Inr \<lparr>returncode = 0, stdout = ''out'', stderr = ''err''\<rparr>)) linux_host
        (start\<lparr>shell_entry := ''ls''\<rparr>))) = ''out'' @ nl @ ''err'' @ nl
   \<and> terminal_output (snd (run_shell_command
        (answers (Inr \<lparr>returncode = 0, stdout = ''out'', stderr = ''err''\<rparr>)) linux_host
        (start\<lparr>shell_entry := ''ls''\<rparr>))) = ''Executing in venv: ls'' @ nl @ ''out'' @ nl @ ''err'' @ nl"
proof -
  have h2: "strip (shell_entry (start\<lparr>shell_entry := ''ls''\<rparr>)) \<noteq> []"
    by (simp add: strip_def isspace_def)
  have h3: "environ (start\<lparr>shell_entry := ''ls''\<rparr>) ''PATH'' = Some ''/usr/bin''"
    by (simp add: start_def environ_def)
  show ?thesis
    using h2 h3
      captured_output_logged[of "answers (Inr \<lparr>returncode = 0, stdout = ''out'', stderr = ''err''\<rparr>)"
        "start\<lparr>shell_entry := ''ls''\<rparr>" linux_host
        "\<lparr>returncode = 0, stdout = ''out'', stderr = ''err''\<rparr>" "()" "''/usr/bin''"]
    by (simp add: answers_def start_def)
qed

text \<open>
  Claim C2 as stated fails on a child that writes nothing to stderr: after
  \<open>compile_requirements\<close> on a fresh log, with stdout \<open>ok\<close> and an empty stderr, the log
  is \<open>ok\<close> and one newline, which does not hold \<open>ok\<close> with its newline followed by the
  (empty) stderr with a newline of its own.
\<close>

theorem captured_output_counterexample:
  "terminal_output (snd (compile_requirements
      (answers (Inr \<lparr>returncode = 0, stdout = ''ok'', stderr = []\<rparr>)) linux_host start)) = ''ok'' @ nl
   \<and> \<not> (\<exists>pre mid post.
        terminal_output (snd (compile_requirements
          (answers (Inr \<lparr>returncode = 0, stdout = ''ok'', stderr = []\<rparr>)) linux_host start)) =
        pre @ (''ok'' @ nl) @ mid @ ([] @ nl) @ post)"
proof -
  have buf: "terminal_output (snd (compile_requirements
      (answers (Inr \<lparr>returncode = 0, stdout = ''ok'', stderr = []\<rparr>)) linux_host start)) = ''ok'' @ nl"
    by (simp add: compile_requirements_def action_defs answers_def start_def linux_host_def)
  have "''ok'' @ nl \<noteq> pre @ (''ok'' @ nl) @ mid @ ([] @ nl) @ post" for pre mid post :: string
  proof
    assume "''ok'' @ nl = pre @ (''ok'' @ nl) @ mid @ ([] @ nl) @ post"
    then have "length (''ok'' @ nl) = length (pre @ (''ok'' @ nl) @ mid @ ([] @ nl) @ post)"
      by (rule arg_cong)
    then show False by (simp add: nl_def)
  qed
  with buf show ?thesis by simp
qed

text \<open>
  Claim C3. When the command entry is empty or holds only whitespace,
  \<open>run_shell_command\<close> appends the single line \<open>No command entered.\<close> to the log and
  starts no child process.
\<close>

theorem blank_command_logs_once:
  assumes "list_all isspace (shell_entry s)"
  shows "run_shell_command exec h s = (Inr (), log_to_terminal ''No command entered.'' s)
       \<and> terminal_output (snd (run_shell_command exec h s)) =
           terminal_output s @ ''No command entered.'' @ nl
       \<and> run_calls (snd (run_shell_command exec h s)) = run_calls s
       \<and> world (snd (run_shell_command exec h s)) = world s"
  using assms
  by (simp add: run_shell_command_def py_bind_def entry_get_def strip_empty_iff log_def
      log_to_terminal_def Let_def)

theorem blank_command_logs_once_witness:
  "list_all isspace (shell_entry (start\<lparr>shell_entry := [CHR '' '', CHR 0x09]\<rparr>))
   \<and> terminal_output (snd (run_shell_command
        (answers (Inr \<lparr>returncode = 0, stdout = ''out'', stderr = []\<rparr>)) linux_host
        (start\<lparr>shell_entry := [CHR '' '', CHR 0x09]\<rparr>))) = ''No command entered.'' @ nl
   \<and> run_calls (snd (run_shell_command
        (answers (Inr \<lparr>returncode = 0, stdout = ''out'', stderr = []\<rparr>)) linux_host
        (start\<lparr>shell_entry := [CHR '' '', CHR 0x09]\<rparr>))) = []"
proof -
  have h1: "list_all isspace (shell_entry (start\<lparr>shell_entry := [CHR '' '', CHR 0x09]\<rparr>))"
    by (simp add: isspace_def)
  show ?thesis
    using h1 blank_command_logs_once[OF h1,
        of "answers (Inr \<lparr>returncode = 0, stdout = ''out'', stderr = []\<rparr>)" linux_host]
    by (simp add: start_def log_to_terminal_def Let_def)
qed

text \<open>
  Claim C4. Once the environment-creating child has run, \<open>create_venv\<close> returns the join
  of \<open>VENV_NAME\<close>, the platform's binary subdirectory and \<open>activate\<close>: the three names
  with the host's separator between them, and nothing after \<open>activate\<close>.
\<close>

theorem create_venv_activate_path:
  assumes "exec (world s) (plain [executable h, ''-m'', ''venv'', VENV_NAME]) = (Inr r, w')"
  shows "fst (create_venv exec h s) =
           Inr (os_path_join (flavour h) VENV_NAME
                  [if system h = ''Windows'' then ''Scripts'' else ''bin'', ''activate''])
       \<and> os_path_join (flavour h) VENV_NAME
           [if system h = ''Windows'' then ''Scripts'' else ''bin'', ''activate''] =
           VENV_NAME @ os_sep (flavour h) @ (if system h = ''Windows'' then ''Scripts'' else ''bin'')
             @ os_sep (flavour h) @ ''activate''"
proof -
  have "venv_path h [''activate''] =
          VENV_NAME @ os_sep (flavour h) @ bin_dir h @ os_sep (flavour h) @ ''activate''"
    by (rule venv_path_explicit(2)) (cases "flavour h"; simp add: is_sep_def)+
  then show ?thesis
    using assms by (simp add: create_venv_def action_defs bin_dir_def venv_path_def)
qed

theorem create_venv_activate_path_witness:
  "answers (Inr \<lparr>returncode = 0, stdout = [], stderr = []\<rparr>) (world start)
     (plain [executable linux_host, ''-m'', ''venv'', VENV_NAME]) =
     (Inr \<lparr>returncode = 0, stdout = [], stderr = []\<rparr>, ())
   \<and> fst (create_venv (answers (Inr \<lparr>returncode = 0, stdout = [], stderr = []\<rparr>)) linux_host start) =
       Inr ''venv_running/bin/activate''"
proof -
  have h1: "answers (Inr \<lparr>returncode = 0, stdout = [], stderr = []\<rparr>) (world start)
     (plain [executable linux_host, ''-m'', ''venv'', VENV_NAME]) =
     (Inr \<lparr>returncode = 0, stdout = [], stderr = []\<rparr>, ())"
    by (simp add: answers_def)
  show ?thesis
    using h1 create_venv_activate_path[of
        "answers (Inr \<lparr>returncode = 0, stdout = [], stderr = []\<rparr>)" start linux_host
        "\<lparr>returncode = 0, stdout = [], stderr = []\<rparr>" "()"]
    by (simp add: linux_host_def VENV_NAME_def os_sep_def)
qed

text \<open>
  Claim C5, as amended. A child of \<open>compile_requirements\<close>, \<open>sync_requirements\<close> or
  \<open>run_shell_command\<close> that runs to completion, whatever its exit code, makes the
  operation return normally, and what it wrote to stderr ends the log. When the call of
  \<open>subprocess.run\<close> itself raises, as it does for an executable that is missing, the
  operation logs nothing about it and ends with that same exception. (For
  \<open>run_shell_command\<close>: on a non-blank command and a host that has a \<open>PATH\<close>.)
\<close>

theorem child_failure_surfacing:
  "(exec (world s) (compile_call h) = (Inr r, w') \<longrightarrow>
      fst (compile_requirements exec h s) = Inr ()
      \<and> (stderr r \<noteq> [] \<longrightarrow>
           (\<exists>pre. terminal_output (snd (compile_requirements exec h s)) = pre @ stderr r @ nl)))
   \<and> (exec (world s) (sync_call h) = (Inr r, w') \<longrightarrow>
      fst (sync_requirements exec h s) = Inr ()
      \<and> (stderr r \<noteq> [] \<longrightarrow>
           (\<exists>pre. terminal_output (snd (sync_requirements exec h s)) = pre @ stderr r @ nl)))
   \<and> (strip (shell_entry s) \<noteq> [] \<and> environ s ''PATH'' = Some old_path
      \<and> exec (world s) (shell_call h (shell_entry s) (environ s) old_path) = (Inr r, w') \<longrightarrow>
      fst (run_shell_command exec h s) = Inr ()
      \<and> (stderr r \<noteq> [] \<longrightarrow>
           (\<exists>pre. terminal_output (snd (run_shell_command exec h s)) = pre @ stderr r @ nl)))
   \<and> (exec (world s) (compile_call h) = (Inl e, w') \<longrightarrow>
      fst (compile_requirements exec h s) = Inl e
      \<and> terminal_output (snd (compile_requirements exec h s)) = terminal_output s)
   \<and> (exec (world s) (sync_call h) = (Inl e, w') \<longrightarrow>
      fst (sync_requirements exec h s) = Inl e
      \<and> terminal_output (snd (sync_requirements exec h s)) = terminal_output s)
   \<and> (strip (shell_entry s) \<noteq> [] \<and> environ s ''PATH'' = Some old_path
      \<and> exec (world s) (shell_call h (shell_entry s) (environ s) old_path) = (Inl e, w') \<longrightarrow>
      fst (run_shell_command exec h s) = Inl e
      \<and> terminal_output (snd (run_shell_command exec h s)) =
          terminal_output s @ ''Executing in venv: '' @ shell_entry s @ nl)"
  using compile_requirements_completed[of exec s h r w']
    sync_requirements_completed[of exec s h r w']
    run_shell_command_completed[of s old_path exec h r w']
    compile_requirements_raised[of exec s h e w']
    sync_requirements_raised[of exec s h e w']
    run_shell_command_raised[of s old_path exec h e w']
  by simp

theorem child_failure_surfacing_witness:
  "answers (Inr \<lparr>returncode = 2, stdout = [], stderr = ''boom''\<rparr>)
     (world (start\<lparr>shell_entry := ''ls''\<rparr>)) (compile_call linux_host) =
     (Inr \<lparr>returncode = 2, stdout = [], stderr = ''boom''\<rparr>, ())
   \<and> answers (Inl (FileNotFoundError ''pip-sync''))
     (world (start\<lparr>shell_entry := ''ls''\<rparr>)) (sync_call linux_host) =
     (Inl (FileNotFoundError ''pip-sync''), ())
   \<and> strip (shell_entry (start\<lparr>shell_entry := ''ls''\<rparr>)) \<noteq> []
   \<and> environ (start\<lparr>shell_entry := ''ls''\<rparr>) ''PATH'' = Some ''/usr/bin''
   \<and> stderr \<lparr>returncode = 2, stdout = [], stderr = ''boom''\<rparr> \<noteq> []
   \<and> fst (compile_requirements (answers (Inr \<lparr>returncode = 2, stdout = [], stderr = ''boom''\<rparr>))
        linux_host (start\<lparr>shell_entry := ''ls''\<rparr>)) = Inr ()
   \<and> (\<exists>pre. terminal_output (snd (run_shell_command
        (answers (Inr \<lparr>returncode = 2, stdout = [], stderr = ''boom''\<rparr>))
        linux_host (start\<lparr>shell_entry := ''ls''\<rparr>))) = pre @ ''boom'' @ nl)
   \<and> fst (sync_requirements (answers (Inl (FileNotFoundError ''pip-sync'')))
        linux_host (start\<lparr>shell_entry := ''ls''\<rparr>)) = Inl (FileNotFoundError ''pip-sync'')
   \<and> terminal_output (snd (run_shell_command (answers (Inl (FileNotFoundError ''pip-sync'')))
        linux_host (start\<lparr>shell_entry := ''ls''\<rparr>))) = ''Executing in venv: ls'' @ nl"
proof -
  let ?s = "start\<lparr>shell_entry := ''ls''\<rparr>"
  let ?r = "\<lparr>returncode = 2, stdout = [], stderr = ''boom''\<rparr>"
  let ?e = "FileNotFoundError ''pip-sync''"
  have h2: "strip (shell_entry ?s) \<noteq> []"
    by (simp add: strip_def isspace_def)
  have h3: "environ ?s ''PATH'' = Some ''/usr/bin''"
    by (simp add: start_def environ_def)
  have completes: "fst (compile_requirements (answers (Inr ?r)) linux_host ?s) = Inr ()
      \<and> (\<exists>pre. terminal_output (snd (run_shell_command (answers (Inr ?r)) linux_host ?s)) =
            pre @ ''boom'' @ nl)"
    using h2 h3
      child_failure_surfacing[of "answers (Inr ?r)" ?s linux_host ?r "()" "''/usr/bin''" ?e]
    by (simp add: answers_def)
  have failed: "fst (sync_requirements (answers (Inl ?e)) linux_host ?s) = Inl ?e
      \<and> terminal_output (snd (run_shell_command (answers (Inl ?e)) linux_host ?s)) =
          ''Executing in venv: ls'' @ nl"
    using h2 h3
      child_failure_surfacing[of "answers (Inl ?e)" ?s linux_host ?r "()" "''/usr/bin''" ?e]
    by (simp add: answers_def start_def)
  show ?thesis
    using h2 h3 completes failed by (simp add: answers_def)
qed

text \<open>
  Claim C5 as stated fails on a missing executable: \<open>compile_requirements\<close> then ends
  with \<open>FileNotFoundError\<close>, and the log is what it was before.
\<close>

theorem child_failure_counterexample:
  "fst (compile_requirements
         (answers (Inl (FileNotFoundError ''venv_running/bin/pip-compile''))) linux_host start) =
     Inl (FileNotFoundError ''venv_running/bin/pip-compile'')
   \<and> terminal_output (snd (compile_requirements
         (answers (Inl (FileNotFoundError ''venv_running/bin/pip-compile''))) linux_host start)) =
     terminal_output start"
  by (simp add: compile_requirements_def action_defs answers_def start_def linux_host_def)

text \<open>
  Claim C6, as amended. The exit code of a completed child is never looked at: at every
  place where the program starts a child, the operation returns normally and leaves a
  result and a state in which the exit code does not occur. What the child wrote to
  stderr is appended to the log, by the same \<open>log_to_terminal\<close> that appends stdout, in
  \<open>compile_requirements\<close>, \<open>sync_requirements\<close> and \<open>run_shell_command\<close>, when it is not
  empty. \<open>get_installed_packages\<close> returns stdout and drops stderr, and the children of
  \<open>create_venv\<close>, \<open>install_pip_tools\<close> and \<open>install_os_dependencies\<close> run without capture:
  nothing they write occurs in the state that is left.
\<close>

theorem exit_code_unchecked:
  "(exec (world s) (compile_call h) = (Inr \<lparr>returncode = rc, stdout = out, stderr = err\<rparr>, w') \<longrightarrow>
      compile_requirements exec h s =
        (Inr (), (if err = [] then id else log_to_terminal err)
                   (log_to_terminal out
                      (s\<lparr>run_calls := run_calls s @ [compile_call h], world := w'\<rparr>))))
   \<and> (exec (world s) (sync_call h) = (Inr \<lparr>returncode = rc, stdout = out, stderr = err\<rparr>, w') \<longrightarrow>
      sync_requirements exec h s =
        (Inr (), (if err = [] then id else log_to_terminal err)
                   (log_to_terminal out
                      (s\<lparr>run_calls := run_calls s @ [sync_call h], world := w'\<rparr>))))
   \<and> (strip (shell_entry s) \<noteq> [] \<and> environ s ''PATH'' = Some old_path
      \<and> exec (world s) (shell_call h (shell_entry s) (environ s) old_path) =
          (Inr \<lparr>returncode = rc, stdout = out, stderr = err\<rparr>, w') \<longrightarrow>
      run_shell_command exec h s =
        (Inr (), (if err = [] then id else log_to_terminal err)
                   ((if out = [] then id else log_to_terminal out)
                      ((log_to_terminal (''Executing in venv: '' @ shell_entry s) s)
                         \<lparr>dicts := (dicts s)(next_ref s := (environ s)(''PATH'' \<mapsto>
                            venv_path h [] @ os_pathsep (flavour h) @ old_path)),
                          next_ref := Suc (next_ref s),
                          run_calls := run_calls s @
                            [shell_call h (shell_entry s) (environ s) old_path],
                          world := w'\<rparr>))))
   \<and> (exec (world s) (list_call h) = (Inr \<lparr>returncode = rc, stdout = out, stderr = err\<rparr>, w') \<longrightarrow>
      get_installed_packages exec h s =
        (Inr out, s\<lparr>run_calls := run_calls s @ [list_call h], world := w'\<rparr>))
   \<and> (exec (world s) (venv_call h) = (Inr \<lparr>returncode = rc, stdout = out, stderr = err\<rparr>, w') \<longrightarrow>
      create_venv exec h s =
        (Inr (venv_path h [''activate'']),
         s\<lparr>run_calls := run_calls s @ [venv_call h], world := w'\<rparr>))
   \<and> (exec (world s) (pip_install_call h) =
          (Inr \<lparr>returncode = rc, stdout = out, stderr = err\<rparr>, w') \<longrightarrow>
      install_pip_tools exec h s =
        (Inr (), s\<lparr>run_calls := run_calls s @ [pip_install_call h], world := w'\<rparr>))
   \<and> (system h = ''Linux''
      \<and> exec (world s) apt_update_call = (Inr \<lparr>returncode = rc, stdout = out, stderr = err\<rparr>, w')
      \<and> exec w' apt_install_call = (Inr \<lparr>returncode = rc2, stdout = out2, stderr = err2\<rparr>, w2) \<longrightarrow>
      install_os_dependencies exec h s =
        (Inr (), (log_to_terminal (detected_os h) s)
                   \<lparr>run_calls := run_calls s @ [apt_update_call, apt_install_call],
                    world := w2\<rparr>))
   \<and> (system h = ''Darwin''
      \<and> exec (world s) brew_call = (Inr \<lparr>returncode = rc, stdout = out, stderr = err\<rparr>, w') \<longrightarrow>
      install_os_dependencies exec h s =
        (Inr (), (log_to_terminal (detected_os h) s)
                   \<lparr>run_calls := run_calls s @ [brew_call], world := w'\<rparr>))"
  using compile_requirements_completed[of exec s h "\<lparr>returncode = rc, stdout = out, stderr = err\<rparr>" w']
    sync_requirements_completed[of exec s h "\<lparr>returncode = rc, stdout = out, stderr = err\<rparr>" w']
    run_shell_command_completed[of s old_path exec h
      "\<lparr>returncode = rc, stdout = out, stderr = err\<rparr>" w']
    get_installed_packages_completed[of exec s h
      "\<lparr>returncode = rc, stdout = out, stderr = err\<rparr>" w']
    create_venv_completed[of exec s h "\<lparr>returncode = rc, stdout = out, stderr = err\<rparr>" w']
    install_pip_tools_completed[of exec s h "\<lparr>returncode = rc, stdout = out, stderr = err\<rparr>" w']
    install_os_dependencies_linux[of h exec s
      "\<lparr>returncode = rc, stdout = out, stderr = err\<rparr>" w'
      "\<lparr>returncode = rc2, stdout = out2, stderr = err2\<rparr>" w2]
    install_os_dependencies_darwin[of h exec s
      "\<lparr>returncode = rc, stdout = out, stderr = err\<rparr>" w']
  by simp

theorem exit_code_unchecked_witness:
  "answers (Inr \<lparr>returncode = 1, stdout = ''out'', stderr = ''bad''\<rparr>)
     (world (start\<lparr>shell_entry := ''ls''\<rparr>)) (compile_call linux_host) =
     (Inr \<lparr>returncode = 1, stdout = ''out'', stderr = ''bad''\<rparr>, ())
   \<and> strip (shell_entry (start\<lparr>shell_entry := ''ls''\<rparr>)) \<noteq> []
   \<and> environ (start\<lparr>shell_entry := ''ls''\<rparr>) ''PATH'' = Some ''/usr/bin''
   \<and> system linux_host = ''Linux''
   \<and> system mac_host = ''Darwin''
   \<and> fst (compile_requirements (answers (Inr \<lparr>returncode = 1, stdout = ''out'', stderr = ''bad''\<rparr>))
        linux_host (start\<lparr>shell_entry := ''ls''\<rparr>)) = Inr ()
   \<and> terminal_output (snd (sync_requirements
        (answers (Inr \<lparr>returncode = 1, stdout = ''out'', stderr = ''bad''\<rparr>)) linux_host
        (start\<lparr>shell_entry := ''ls''\<rparr>))) = ''out'' @ nl @ ''bad'' @ nl
   \<and> terminal_output (snd (run_shell_command
        (answers (Inr \<lparr>returncode = 1, stdout = ''out'', stderr = ''bad''\<rparr>)) linux_host
        (start\<lparr>shell_entry := ''ls''\<rparr>))) = ''Executing in venv: ls'' @ nl @ ''out'' @ nl @ ''bad'' @ nl
   \<and> get_installed_packages (answers (Inr \<lparr>returncode = 1, stdout = ''out'', stderr = ''bad''\<rparr>))
        linux_host (start\<lparr>shell_entry := ''ls''\<rparr>) =
        (Inr ''out'', start\<lparr>shell_entry := ''ls'', run_calls := [list_call linux_host]\<rparr>)
   \<and> fst (create_venv (answers (Inr \<lparr>returncode = 1, stdout = ''out'', stderr = ''bad''\<rparr>))
        linux_host (start\<lparr>shell_entry := ''ls''\<rparr>)) = Inr (venv_path linux_host [''activate''])
   \<and> terminal_output (snd (install_pip_tools
        (answers (Inr \<lparr>returncode = 1, stdout = ''out'', stderr = ''bad''\<rparr>)) linux_host
        (start\<lparr>shell_entry := ''ls''\<rparr>))) = []
   \<and> install_os_dependencies (answers (Inr \<lparr>returncode = 1, stdout = ''out'', stderr = ''bad''\<rparr>))
        linux_host (start\<lparr>shell_entry := ''ls''\<rparr>) =
        (Inr (), (log_to_terminal (detected_os linux_host) (start\<lparr>shell_entry := ''ls''\<rparr>))
                   \<lparr>run_calls := [apt_update_call, apt_install_call]\<rparr>)
   \<and> install_os_dependencies (answers (Inr \<lparr>returncode = 1, stdout = ''out'', stderr = ''bad''\<rparr>))
        mac_host (start\<lparr>shell_entry := ''ls''\<rparr>) =
        (Inr (), (log_to_terminal (detected_os mac_host) (start\<lparr>shell_entry := ''ls''\<rparr>))
                   \<lparr>run_calls := [brew_call]\<rparr>)"
proof -
  let ?x = "answers (Inr \<lparr>returncode = 1, stdout = ''out'', stderr = ''bad''\<rparr>)"
  let ?s = "start\<lparr>shell_entry := ''ls''\<rparr>"
  have h2: "strip (shell_entry ?s) \<noteq> []"
    by (simp add: strip_def isspace_def)
  have h3: "environ ?s ''PATH'' = Some ''/usr/bin''"
    by (simp add: start_def environ_def)
  have h4: "system linux_host = ''Linux''" "system mac_host = ''Darwin''"
    by (simp_all add: linux_host_def mac_host_def)
  have empty: "run_calls ?s = []" "terminal_output ?s = []" "world ?s = ()"
    by (simp_all add: start_def)
  have linux: "fst (compile_requirements ?x linux_host ?s) = Inr ()
      \<and> terminal_output (snd (sync_requirements ?x linux_host ?s)) = ''out'' @ nl @ ''bad'' @ nl
      \<and> terminal_output (snd (run_shell_command ?x linux_host ?s)) =
          ''Executing in venv: ls'' @ nl @ ''out'' @ nl @ ''bad'' @ nl
      \<and> get_installed_packages ?x linux_host ?s =
          (Inr ''out'', start\<lparr>shell_entry := ''ls'', run_calls := [list_call linux_host]\<rparr>)
      \<and> fst (create_venv ?x linux_host ?s) = Inr (venv_path linux_host [''activate''])
      \<and> terminal_output (snd (install_pip_tools ?x linux_host ?s)) = []
      \<and> install_os_dependencies ?x linux_host ?s =
          (Inr (), (log_to_terminal (detected_os linux_host) ?s)
                     \<lparr>run_calls := [apt_update_call, apt_install_call]\<rparr>)"
    using h2 h3 h4 empty
      exit_code_unchecked[of ?x ?s linux_host 1 "''out''" "''bad''" "()" "''/usr/bin''"
        1 "''out''" "''bad''" "()"]
    by (simp add: answers_def)
  have mac: "install_os_dependencies ?x mac_host ?s =
          (Inr (), (log_to_terminal (detected_os mac_host) ?s)\<lparr>run_calls := [brew_call]\<rparr>)"
    using h4 empty
      exit_code_unchecked[of ?x ?s mac_host 1 "''out''" "''bad''" "()" "''/usr/bin''"
        1 "''out''" "''bad''" "()"]
    by (simp add: answers_def)
  show ?thesis
    using h2 h3 h4 linux mac by (simp add: answers_def)
qed

text \<open>
  Claim C6 as stated fails where stderr is not logged: the package listing that exits
  with code 3 and a warning on stderr leaves the log empty, and so does a failed
  installation of pip-tools.
\<close>

theorem exit_code_counterexample:
  "get_installed_packages
     (answers (Inr \<lparr>returncode = 3, stdout = ''pip 23.0'', stderr = ''WARNING: old pip''\<rparr>))
     linux_host start =
     (Inr ''pip 23.0'', start\<lparr>run_calls := [captured [''venv_running/bin/pip'', ''list'']]\<rparr>)
   \<and> terminal_output (snd (get_installed_packages
        (answers (Inr \<lparr>returncode = 3, stdout = ''pip 23.0'', stderr = ''WARNING: old pip''\<rparr>))
        linux_host start)) = []
   \<and> terminal_output (snd (install_pip_tools
        (answers (Inr \<lparr>returncode = 1, stdout = [], stderr = ''ERROR: no network''\<rparr>))
        linux_host start)) = []"
  by (simp add: get_installed_packages_def install_pip_tools_def action_defs answers_def
      start_def linux_host_def os_path_join_def join_step_def is_sep_def os_sep_def VENV_NAME_def)

text \<open>
  Claim C7. For a non-blank command, on a host that has a \<open>PATH\<close>, \<open>run_shell_command\<close>
  starts exactly one child: the command, through the shell, in a copy of the host's
  environment whose \<open>PATH\<close> is the environment's binary directory, then \<open>os.pathsep\<close>,
  then the previous \<open>PATH\<close>.
\<close>

theorem shell_child_path:
  assumes "strip (shell_entry s) \<noteq> []" and "environ s ''PATH'' = Some old_path"
  shows "run_calls (snd (run_shell_command exec h s)) =
           run_calls s @
           [\<lparr>cmd = Shell (shell_entry s), capture_output = True, text_mode = True,
             env = Some ((environ s)(''PATH'' \<mapsto>
                     os_path_join (flavour h) VENV_NAME
                       [if system h = ''Windows'' then ''Scripts'' else ''bin'']
                     @ os_pathsep (flavour h) @ old_path))\<rparr>]
       \<and> os_path_join (flavour h) VENV_NAME [if system h = ''Windows'' then ''Scripts'' else ''bin''] =
           VENV_NAME @ os_sep (flavour h) @ (if system h = ''Windows'' then ''Scripts'' else ''bin'')"
proof -
  have "run_calls (snd (run_shell_command exec h s)) =
           run_calls s @
           [\<lparr>cmd = Shell (shell_entry s), capture_output = True, text_mode = True,
             env = Some ((environ s)(''PATH'' \<mapsto>
                     os_path_join (flavour h) VENV_NAME
                       [if system h = ''Windows'' then ''Scripts'' else ''bin'']
                     @ os_pathsep (flavour h) @ old_path))\<rparr>]"
    using assms
    by (simp add: run_shell_command_def action_defs dict_defs log_to_terminal_def Let_def
        split: prod.splits sum.splits)
  moreover have "os_path_join (flavour h) VENV_NAME
        [if system h = ''Windows'' then ''Scripts'' else ''bin''] =
      VENV_NAME @ os_sep (flavour h) @ (if system h = ''Windows'' then ''Scripts'' else ''bin'')"
    using venv_path_explicit(1)[of h] by (simp add: venv_path_def bin_dir_def)
  ultimately show ?thesis by simp
qed

theorem shell_child_path_witness:
  "strip (shell_entry (start\<lparr>shell_entry := ''pip list''\<rparr>)) \<noteq> []
   \<and> environ (start\<lparr>shell_entry := ''pip list''\<rparr>) ''PATH'' = Some ''/usr/bin''
   \<and> map (\<lambda>c. (cmd c, map_option (\<lambda>e. e ''PATH'') (env c)))
        (run_calls (snd (run_shell_command
           (answers (Inr \<lparr>returncode = 0, stdout = [], stderr = []\<rparr>)) linux_host
           (start\<lparr>shell_entry := ''pip list''\<rparr>)))) =
      [(Shell ''pip list'', Some (Some ''venv_running/bin:/usr/bin''))]"
proof -
  have h2: "strip (shell_entry (start\<lparr>shell_entry := ''pip list''\<rparr>)) \<noteq> []"
    by (simp add: strip_def isspace_def)
  have h3: "environ (start\<lparr>shell_entry := ''pip list''\<rparr>) ''PATH'' = Some ''/usr/bin''"
    by (simp add: start_def environ_def)
  have c: "map (\<lambda>c. (cmd c, map_option (\<lambda>e. e ''PATH'') (env c)))
        (run_calls (snd (run_shell_command
           (answers (Inr \<lparr>returncode = 0, stdout = [], stderr = []\<rparr>)) linux_host
           (start\<lparr>shell_entry := ''pip list''\<rparr>)))) =
      [(Shell ''pip list'', Some (Some ''venv_running/bin:/usr/bin''))]"
    using shell_child_path[OF h2 h3,
        of "answers (Inr \<lparr>returncode = 0, stdout = [], stderr = []\<rparr>)" linux_host]
    by (simp add: start_def linux_host_def VENV_NAME_def os_sep_def os_pathsep_def)
  show ?thesis using h2 h3 c by simp
qed

text \<open>
  Claim C8. \<open>log_to_terminal\<close> appends its text and one newline at the end of the buffer,
  leaves the text that was there unchanged, touches nothing else but the view, and moves
  the view to the end of the new buffer.
\<close>

theorem log_to_terminal_appends:
  "log_to_terminal text s =
     s\<lparr>terminal_output := terminal_output s @ text @ nl,
       view_pos := length (terminal_output s @ text @ nl)\<rparr>
   \<and> take (length (terminal_output s)) (terminal_output (log_to_terminal text s)) = terminal_output s
   \<and> drop (length (terminal_output s)) (terminal_output (log_to_terminal text s)) = text @ nl
   \<and> length nl = 1
   \<and> view_pos (log_to_terminal text s) = length (terminal_output (log_to_terminal text s))"
  by (simp add: log_to_terminal_def Let_def nl_def)

text \<open>
  Claim C9, as amended. Compiling, syncing and running a shell command open no message
  box, only ever append to the log, and run their children with the output captured.
  Creating the environment opens no message box and only ever appends to the log, but
  all its children run without capture, and whatever they return leaves the action and
  its log unchanged: their output is not in the log. The status action shows the package
  list in a message box titled \<open>Installed Packages\<close> and leaves the log as it was.
\<close>

theorem feedback_channels:
  "dialogs (snd (on_compile exec h s)) = dialogs s
   \<and> dialogs (snd (on_sync exec h s)) = dialogs s
   \<and> dialogs (snd (run_shell_command exec h s)) = dialogs s
   \<and> prefix (terminal_output s) (terminal_output (snd (on_compile exec h s)))
   \<and> prefix (terminal_output s) (terminal_output (snd (on_sync exec h s)))
   \<and> prefix (terminal_output s) (terminal_output (snd (run_shell_command exec h s)))
   \<and> list_all capture_output (drop (length (run_calls s)) (run_calls (snd (on_compile exec h s))))
   \<and> list_all capture_output (drop (length (run_calls s)) (run_calls (snd (on_sync exec h s))))
   \<and> list_all capture_output
        (drop (length (run_calls s)) (run_calls (snd (run_shell_command exec h s))))
   \<and> dialogs (snd (on_create_venv exec h s)) = dialogs s
   \<and> prefix (terminal_output s) (terminal_output (snd (on_create_venv exec h s)))
   \<and> list_all (\<lambda>c. \<not> capture_output c)
        (drop (length (run_calls s)) (run_calls (snd (on_create_venv exec h s))))
   \<and> on_create_venv (with_results f exec) h s = on_create_venv exec h s
   \<and> terminal_output (snd (on_status exec h s)) = terminal_output s
   \<and> (exec (world s) (list_call h) = (Inr r, w') \<longrightarrow>
        dialogs (snd (on_status exec h s)) = dialogs s @ [(''Installed Packages'', stdout r)])"
  using dialogs_on_create_venv[of exec h s] dialogs_on_compile[of exec h s]
    dialogs_on_sync[of exec h s] dialogs_run_shell_command[of exec h s]
    grows_on_create_venv[of s exec h] grows_on_compile[of s exec h]
    grows_on_sync[of s exec h] grows_run_shell_command[of s exec h]
    captured_on_compile[of s exec h] captured_on_sync[of s exec h]
    captured_run_shell_command[of s exec h]
    uncaptured_on_create_venv[of s exec h] on_create_venv_discards[of f exec h]
    on_status_log_unchanged[of exec h s] on_status_dialog[of exec s h r w']
  by simp

theorem feedback_channels_witness:
  "answers (Inr \<lparr>returncode = 0, stdout = ''pip 23.0'', stderr = []\<rparr>) (world start)
     (list_call linux_host) = (Inr \<lparr>returncode = 0, stdout = ''pip 23.0'', stderr = []\<rparr>, ())
   \<and> dialogs (snd (on_status (answers (Inr \<lparr>returncode = 0, stdout = ''pip 23.0'', stderr = []\<rparr>))
        linux_host start)) = dialogs start @ [(''Installed Packages'', ''pip 23.0'')]
   \<and> dialogs (snd (on_create_venv (answers (Inr \<lparr>returncode = 0, stdout = ''pip 23.0'', stderr = []\<rparr>))
        linux_host start)) = dialogs start"
  using feedback_channels[of "answers (Inr \<lparr>returncode = 0, stdout = ''pip 23.0'', stderr = []\<rparr>)"
      linux_host start id "\<lparr>returncode = 0, stdout = ''pip 23.0'', stderr = []\<rparr>" "()"]
  by (simp add: answers_def)

text \<open>
  Claim C9 as stated fails twice. The status action, with a package list \<open>pip 23.0\<close>,
  shows that text in a message box and writes nothing to the log. Creating the
  environment on Linux starts four children, none of them captured, and the log holds
  the program's own six lines and nothing of what the children wrote.
\<close>

theorem feedback_channels_counterexample:
  "dialogs (snd (on_status (answers (Inr \<lparr>returncode = 0, stdout = ''pip 23.0'', stderr = []\<rparr>))
       linux_host start)) = [(''Installed Packages'', ''pip 23.0'')]
   \<and> terminal_output (snd (on_status
       (answers (Inr \<lparr>returncode = 0, stdout = ''pip 23.0'', stderr = []\<rparr>)) linux_host start)) = []
   \<and> map capture_output (run_calls (snd (on_create_venv
       (answers (Inr \<lparr>returncode = 0, stdout = ''Reading package lists'', stderr = ''E: failed''\<rparr>))
       linux_host start))) = [False, False, False, False]
   \<and> terminal_output (snd (on_create_venv
       (answers (Inr \<lparr>returncode = 0, stdout = ''Reading package lists'', stderr = ''E: failed''\<rparr>))
       linux_host start)) =
       ''Checking OS dependencies...'' @ nl @ ''Detected OS: Linux 6.1.0 #1 SMP'' @ nl
       @ ''Creating virtual environment...'' @ nl
       @ ''Virtual environment created at venv_running/bin/activate'' @ nl
       @ ''Installing pip-tools...'' @ nl @ ''pip-tools installed.'' @ nl"
proof -
  have status: "dialogs (snd (on_status
        (answers (Inr \<lparr>returncode = 0, stdout = ''pip 23.0'', stderr = []\<rparr>))
        linux_host start)) = [(''Installed Packages'', ''pip 23.0'')]
      \<and> terminal_output (snd (on_status
        (answers (Inr \<lparr>returncode = 0, stdout = ''pip 23.0'', stderr = []\<rparr>)) linux_host start)) = []"
    by (simp add: on_status_def get_installed_packages_def showinfo_def action_defs answers_def
        start_def linux_host_def)
  have create: "map capture_output (run_calls (snd (on_create_venv
        (answers (Inr \<lparr>returncode = 0, stdout = ''Reading package lists'', stderr = ''E: failed''\<rparr>))
        linux_host start))) = [False, False, False, False]
      \<and> terminal_output (snd (on_create_venv
        (answers (Inr \<lparr>returncode = 0, stdout = ''Reading package lists'', stderr = ''E: failed''\<rparr>))
        linux_host start)) =
        ''Checking OS dependencies...'' @ nl @ ''Detected OS: Linux 6.1.0 #1 SMP'' @ nl
        @ ''Creating virtual environment...'' @ nl
        @ ''Virtual environment created at venv_running/bin/activate'' @ nl
        @ ''Installing pip-tools...'' @ nl @ ''pip-tools installed.'' @ nl"
    by (simp add: on_create_venv_def install_os_dependencies_def get_os_info_def create_venv_def
        install_pip_tools_def select_tab_def action_defs answers_def start_def linux_host_def
        plain_def os_path_join_def join_step_def is_sep_def os_sep_def VENV_NAME_def
        log_to_terminal_def Let_def)
  from status create show ?thesis by simp
qed

text \<open>
  Claim C10. \<open>run_shell_command\<close> leaves \<open>os.environ\<close> as it found it, whatever the
  command and whatever the child does: \<open>env\<close> is a new object, and the extended \<open>PATH\<close> is
  written to that object only. A second run, after any edit of the command entry, starts
  from the same host environment. (The state is one in which the address of
  \<open>os.environ\<close> is in use, as it is in every state of the running program.)
\<close>

theorem shell_keeps_environ:
  assumes "os_environ < next_ref s"
  shows "environ (snd (run_shell_command exec h s)) = environ s
       \<and> environ (snd (run_shell_command exec h
            ((snd (run_shell_command exec h s))\<lparr>shell_entry := cmd2\<rparr>))) = environ s"
proof -
  let ?t = "(snd (run_shell_command exec h s))\<lparr>shell_entry := cmd2\<rparr>"
  have first: "environ (snd (run_shell_command exec h s)) = environ s"
    and used: "os_environ < next_ref ?t"
    using environ_run_shell_command[OF assms, of exec h] by simp_all
  have "environ (snd (run_shell_command exec h ?t)) = environ ?t"
    using environ_run_shell_command[OF used, of exec h] by simp
  also have "environ ?t = environ s"
    using first by (simp add: environ_def)
  finally show ?thesis using first by simp
qed

theorem shell_keeps_environ_witness:
  "os_environ < next_ref (start\<lparr>shell_entry := ''ls''\<rparr>)
   \<and> environ (snd (run_shell_command
        (answers (Inr \<lparr>returncode = 0, stdout = [], stderr = []\<rparr>)) linux_host
        (start\<lparr>shell_entry := ''ls''\<rparr>))) ''PATH'' = Some ''/usr/bin''"
proof -
  have h1: "os_environ < next_ref (start\<lparr>shell_entry := ''ls''\<rparr>)"
    by (simp add: start_def os_environ_def)
  show ?thesis
    using h1 shell_keeps_environ[OF h1,
        of "answers (Inr \<lparr>returncode = 0, stdout = [], stderr = []\<rparr>)" linux_host]
    by (simp add: environ_def start_def)
qed

end
